theory Spec2Isabelle
  imports Main "HOL-Library.Option_ord"
begin

section \<open>Base classes for Spokes (pyanaconda/ui/gui/spokes/__init__.py)\<close>

subsection \<open>Values\<close>

text \<open>
  The handles a spoke is given (ksdata, devicetree, payload, instclass), its selector and
  its window are opaque references; the module stores them and never looks inside.
\<close>

type_synonym handle = nat

text \<open>
  \<open>category\<close>, \<open>preForHub\<close> and \<open>postForHub\<close> hold a reference to a class defined
  elsewhere (the class itself, not an object), or None. Such a class has an identity and a
  \<open>__name__\<close>. A class object is truthy; None is not.
\<close>

datatype classref = ClassRef (class_id: nat) (class_name: string)

fun truthy :: "classref option \<Rightarrow> bool" where
  "truthy None = False"
| "truthy (Some c) = True"

text \<open>
  The exceptions the module raises. The specification calls TypeError raised by the abstract
  class guard AbstractInstantiationError, and AttributeError raised for a spoke with both
  preForHub and postForHub InvalidConfigurationError. RuntimeError is what threading raises
  when a thread that was never started is joined.
\<close>

datatype error = TypeError | AttributeError | NotImplementedError | RuntimeError

text \<open>
  A method body reads and writes the state outside this module (the kickstart data, the
  widgets), of type \<open>'u\<close>, and returns a value or raises.
\<close>

type_synonym ('u, 'r) meth = "'u \<Rightarrow> (error + 'r) \<times> 'u"

subsection \<open>Classes\<close>

text \<open>
  What the body of a subclass may define. None in a field: the class statement does not
  define the name, which is then inherited. For the attributes that may themselves be
  None, \<open>Some None\<close> is an explicit \<open>category = None\<close>.
\<close>

record 'u body =
  def_category :: "classref option option"
  def_icon :: "string option option"
  def_title :: "string option option"
  def_preForHub :: "classref option option"
  def_postForHub :: "classref option option"
  def_priority :: "int option"
  def_apply :: "('u, unit) meth option"
  def_completed :: "('u, bool) meth option"
  def_status :: "('u, string) meth option"
  def_check :: "('u, unit) meth option"
  def_ready :: "('u, bool) meth option"

text \<open>The class statement whose body is \<open>pass\<close>.\<close>

definition pass_body :: "'u body" where
  "pass_body = \<lparr>def_category = None, def_icon = None, def_title = None,
     def_preForHub = None, def_postForHub = None, def_priority = None,
     def_apply = None, def_completed = None, def_status = None,
     def_check = None, def_ready = None\<rparr>"

text \<open>
  The four classes of the module, and \<open>Subclass p b\<close>: a class statement with the single
  base \<open>p\<close> and the body \<open>b\<close>. StandaloneSpoke, NormalSpoke and PersonalizationSpoke have
  the base Spoke.
\<close>

datatype 'u klass =
    Spoke
  | StandaloneSpoke
  | NormalSpoke
  | PersonalizationSpoke
  | Subclass "'u klass" "'u body"

text \<open>The class of the module a class descends from.\<close>

fun root :: "'u klass \<Rightarrow> 'u klass" where
  "root (Subclass p b) = root p"
| "root c = c"

subsection \<open>Class attributes\<close>

text \<open>
  Attribute lookup goes from the class up its bases. Spoke sets \<open>category\<close>, \<open>icon\<close> and
  \<open>title\<close> to None; its three subclasses in the module do not set them and inherit None.
\<close>

fun category :: "'u klass \<Rightarrow> classref option" where
  "category Spoke = None"
| "category StandaloneSpoke = None"
| "category NormalSpoke = None"
| "category PersonalizationSpoke = None"
| "category (Subclass p b) = (case def_category b of Some v \<Rightarrow> v | None \<Rightarrow> category p)"

fun icon :: "'u klass \<Rightarrow> string option" where
  "icon Spoke = None"
| "icon StandaloneSpoke = None"
| "icon NormalSpoke = None"
| "icon PersonalizationSpoke = None"
| "icon (Subclass p b) = (case def_icon b of Some v \<Rightarrow> v | None \<Rightarrow> icon p)"

fun title :: "'u klass \<Rightarrow> string option" where
  "title Spoke = None"
| "title StandaloneSpoke = None"
| "title NormalSpoke = None"
| "title PersonalizationSpoke = None"
| "title (Subclass p b) = (case def_title b of Some v \<Rightarrow> v | None \<Rightarrow> title p)"

text \<open>
  \<open>preForHub\<close>, \<open>postForHub\<close> and \<open>priority\<close> are set by StandaloneSpoke only (None, None
  and 100). The outer None of the result: the class has no such attribute (Spoke, and
  NormalSpoke and PersonalizationSpoke, which inherit from it), and reading it raises
  AttributeError.
\<close>

fun preForHub :: "'u klass \<Rightarrow> classref option option" where
  "preForHub Spoke = None"
| "preForHub StandaloneSpoke = Some None"
| "preForHub NormalSpoke = None"
| "preForHub PersonalizationSpoke = None"
| "preForHub (Subclass p b) =
     (case def_preForHub b of Some v \<Rightarrow> Some v | None \<Rightarrow> preForHub p)"

fun postForHub :: "'u klass \<Rightarrow> classref option option" where
  "postForHub Spoke = None"
| "postForHub StandaloneSpoke = Some None"
| "postForHub NormalSpoke = None"
| "postForHub PersonalizationSpoke = None"
| "postForHub (Subclass p b) =
     (case def_postForHub b of Some v \<Rightarrow> Some v | None \<Rightarrow> postForHub p)"

fun priority :: "'u klass \<Rightarrow> int option" where
  "priority Spoke = None"
| "priority StandaloneSpoke = Some 100"
| "priority NormalSpoke = None"
| "priority PersonalizationSpoke = None"
| "priority (Subclass p b) =
     (case def_priority b of Some v \<Rightarrow> Some v | None \<Rightarrow> priority p)"

subsection \<open>Instances and construction\<close>

text \<open>
  An object of one of these classes. Its attributes exist once an initialiser has assigned
  them: None in \<open>data\<close>, \<open>devicetree\<close>, \<open>payload\<close>, \<open>instclass\<close> is an attribute not yet
  assigned. Only \<open>NormalSpoke.__init__\<close> assigns \<open>selector\<close>, and it assigns None
  (\<open>Some None\<close> here).
\<close>

record 'u inst =
  cls :: "'u klass"
  data :: "handle option"
  devicetree :: "handle option"
  payload :: "handle option"
  instclass :: "handle option"
  selector :: "handle option option"

definition object_new :: "'u klass \<Rightarrow> 'u inst" where
  "object_new c = \<lparr>cls = c, data = None, devicetree = None, payload = None,
     instclass = None, selector = None\<rparr>"

text \<open>
  Modelled from the spec: \<open>UIObject.__init__\<close> (pyanaconda.ui.gui) is not part of this
  module. The specification says that a generic UI-object initialiser runs first and that
  the screen holds the shared configuration data it was given, stored without copying.
\<close>

definition UIObject_init :: "'u inst \<Rightarrow> handle \<Rightarrow> error + 'u inst" where
  "UIObject_init self d = Inr (self\<lparr>data := Some d\<rparr>)"

definition Spoke_init ::
  "'u inst \<Rightarrow> handle \<Rightarrow> handle \<Rightarrow> handle \<Rightarrow> handle \<Rightarrow> error + 'u inst" where
  "Spoke_init self d dt pl ic =
     (if cls self = Spoke then Inl TypeError
      else case UIObject_init self d of
             Inl e \<Rightarrow> Inl e
           | Inr s \<Rightarrow> Inr (s\<lparr>devicetree := Some dt, payload := Some pl, instclass := Some ic\<rparr>))"

text \<open>
  \<open>self.preForHub and self.postForHub\<close>: \<open>postForHub\<close> is read only when \<open>preForHub\<close> is
  truthy.
\<close>

definition StandaloneSpoke_init ::
  "'u inst \<Rightarrow> handle \<Rightarrow> handle \<Rightarrow> handle \<Rightarrow> handle \<Rightarrow> error + 'u inst" where
  "StandaloneSpoke_init self d dt pl ic =
     (if cls self = StandaloneSpoke then Inl TypeError
      else case preForHub (cls self) of
             None \<Rightarrow> Inl AttributeError
           | Some pre \<Rightarrow>
               if truthy pre then
                 (case postForHub (cls self) of
                    None \<Rightarrow> Inl AttributeError
                  | Some post \<Rightarrow>
                      if truthy post then Inl AttributeError
                      else Spoke_init self d dt pl ic)
               else Spoke_init self d dt pl ic)"

definition NormalSpoke_init ::
  "'u inst \<Rightarrow> handle \<Rightarrow> handle \<Rightarrow> handle \<Rightarrow> handle \<Rightarrow> error + 'u inst" where
  "NormalSpoke_init self d dt pl ic =
     (if cls self = NormalSpoke then Inl TypeError
      else case Spoke_init self d dt pl ic of
             Inl e \<Rightarrow> Inl e
           | Inr s \<Rightarrow> Inr (s\<lparr>selector := Some None\<rparr>))"

definition PersonalizationSpoke_init ::
  "'u inst \<Rightarrow> handle \<Rightarrow> handle \<Rightarrow> handle \<Rightarrow> handle \<Rightarrow> error + 'u inst" where
  "PersonalizationSpoke_init self d dt pl ic =
     (if cls self = PersonalizationSpoke then Inl TypeError
      else Spoke_init self d dt pl ic)"

text \<open>
  The \<open>__init__\<close> a class has: its own for the four classes of the module, the inherited
  one for a subclass. (What a subclass's own \<open>__init__\<close> would do around the call of its
  base's is outside this module.)
\<close>

fun init ::
  "'u klass \<Rightarrow> 'u inst \<Rightarrow> handle \<Rightarrow> handle \<Rightarrow> handle \<Rightarrow> handle \<Rightarrow> error + 'u inst" where
  "init Spoke = Spoke_init"
| "init StandaloneSpoke = StandaloneSpoke_init"
| "init NormalSpoke = NormalSpoke_init"
| "init PersonalizationSpoke = PersonalizationSpoke_init"
| "init (Subclass p b) = init p"

text \<open>Calling the class: \<open>c(data, devicetree, payload, instclass)\<close>.\<close>

definition construct ::
  "'u klass \<Rightarrow> handle \<Rightarrow> handle \<Rightarrow> handle \<Rightarrow> handle \<Rightarrow> error + 'u inst" where
  "construct c d dt pl ic = init c (object_new c) d dt pl ic"

subsection \<open>Methods\<close>

text \<open>The implementations the module gives. \<open>check\<close> is \<open>pass\<close> and returns None.\<close>

definition Spoke_apply :: "'u inst \<Rightarrow> ('u, unit) meth" where
  "Spoke_apply self u = (Inl NotImplementedError, u)"

definition Spoke_completed :: "'u inst \<Rightarrow> ('u, bool) meth" where
  "Spoke_completed self u = (Inr False, u)"

definition Spoke_status :: "'u inst \<Rightarrow> ('u, string) meth" where
  "Spoke_status self u = (Inl NotImplementedError, u)"

definition NormalSpoke_check :: "'u inst \<Rightarrow> ('u, unit) meth" where
  "NormalSpoke_check self u = (Inr (), u)"

definition NormalSpoke_ready :: "'u inst \<Rightarrow> ('u, bool) meth" where
  "NormalSpoke_ready self u = (Inr True, u)"

text \<open>
  Method lookup, from the class up its bases. \<open>apply\<close>, \<open>completed\<close> and \<open>status\<close> are
  defined by Spoke, so every class has them. \<open>check\<close> and \<open>ready\<close> are defined by
  NormalSpoke: a class that neither descends from it nor defines them has none.
\<close>

fun find_apply :: "'u klass \<Rightarrow> 'u inst \<Rightarrow> ('u, unit) meth" where
  "find_apply (Subclass p b) =
     (case def_apply b of Some f \<Rightarrow> (\<lambda>self. f) | None \<Rightarrow> find_apply p)"
| "find_apply c = Spoke_apply"

fun find_completed :: "'u klass \<Rightarrow> 'u inst \<Rightarrow> ('u, bool) meth" where
  "find_completed (Subclass p b) =
     (case def_completed b of Some f \<Rightarrow> (\<lambda>self. f) | None \<Rightarrow> find_completed p)"
| "find_completed c = Spoke_completed"

fun find_status :: "'u klass \<Rightarrow> 'u inst \<Rightarrow> ('u, string) meth" where
  "find_status (Subclass p b) =
     (case def_status b of Some f \<Rightarrow> (\<lambda>self. f) | None \<Rightarrow> find_status p)"
| "find_status c = Spoke_status"

fun find_check :: "'u klass \<Rightarrow> ('u inst \<Rightarrow> ('u, unit) meth) option" where
  "find_check (Subclass p b) =
     (case def_check b of Some f \<Rightarrow> Some (\<lambda>self. f) | None \<Rightarrow> find_check p)"
| "find_check NormalSpoke = Some NormalSpoke_check"
| "find_check c = None"

fun find_ready :: "'u klass \<Rightarrow> ('u inst \<Rightarrow> ('u, bool) meth) option" where
  "find_ready (Subclass p b) =
     (case def_ready b of Some f \<Rightarrow> Some (\<lambda>self. f) | None \<Rightarrow> find_ready p)"
| "find_ready NormalSpoke = Some NormalSpoke_ready"
| "find_ready c = None"

text \<open>
  \<open>self.apply()\<close>, \<open>self.completed\<close>, \<open>self.status\<close>, \<open>self.check()\<close>, \<open>self.ready\<close>
  (\<open>completed\<close>, \<open>status\<close> and \<open>ready\<close> are properties: reading them runs the method).
\<close>

definition self_apply :: "'u inst \<Rightarrow> ('u, unit) meth" where
  "self_apply self = find_apply (cls self) self"

definition self_completed :: "'u inst \<Rightarrow> ('u, bool) meth" where
  "self_completed self = find_completed (cls self) self"

definition self_status :: "'u inst \<Rightarrow> ('u, string) meth" where
  "self_status self = find_status (cls self) self"

definition self_check :: "'u inst \<Rightarrow> ('u, unit) meth" where
  "self_check self u =
     (case find_check (cls self) of None \<Rightarrow> (Inl AttributeError, u) | Some m \<Rightarrow> m self u)"

definition self_ready :: "'u inst \<Rightarrow> ('u, bool) meth" where
  "self_ready self u =
     (case find_ready (cls self) of None \<Rightarrow> (Inl AttributeError, u) | Some m \<Rightarrow> m self u)"

text \<open>Whether some class statement between a class and the module's classes defines a method.\<close>

fun overrides_apply :: "'u klass \<Rightarrow> bool" where
  "overrides_apply (Subclass p b) = (def_apply b \<noteq> None \<or> overrides_apply p)"
| "overrides_apply c = False"

fun overrides_completed :: "'u klass \<Rightarrow> bool" where
  "overrides_completed (Subclass p b) = (def_completed b \<noteq> None \<or> overrides_completed p)"
| "overrides_completed c = False"

fun overrides_status :: "'u klass \<Rightarrow> bool" where
  "overrides_status (Subclass p b) = (def_status b \<noteq> None \<or> overrides_status p)"
| "overrides_status c = False"

fun overrides_ready :: "'u klass \<Rightarrow> bool" where
  "overrides_ready (Subclass p b) = (def_ready b \<noteq> None \<or> overrides_ready p)"
| "overrides_ready c = False"

subsection \<open>The world outside the module\<close>

text \<open>
  A thread object of \<open>threading\<close>: its name, what it runs, the \<open>kill\<close> attribute the
  back handler assigns (False: not assigned), and whether it was started and has ended.
\<close>

datatype 'u callable = BoundCheck "'u inst" | OtherCallable

datatype tstate = Initial | Running | Finished

record 'u thread =
  thr_name :: string
  thr_target :: "'u callable"
  kill :: bool
  thr_state :: tstate

text \<open>
  The calls the module makes on its collaborators, in program order. The trace is a ghost
  log: no statement of the module reads it.
\<close>

datatype event =
    WindowHide
  | GtkMainQuit
  | ThreadMgrGet string
  | SetKill nat
  | Join nat
  | ThreadMgrAdd string nat
  | Apply
  | Callback

text \<open>
  \<open>threads\<close> holds the thread objects, a thread's identity being its index; \<open>threadMgr\<close>
  is the manager's table from names to thread objects; \<open>exits\<close> is the environment: whether
  the run of a thread object ever ends (at the latest after it sees \<open>kill\<close>), which the
  code the thread runs decides, not this module; \<open>ustate\<close> is the state the method bodies
  and callbacks work on.
\<close>

record 'u world =
  trace :: "event list"
  threads :: "'u thread list"
  threadMgr :: "string \<rightharpoonup> nat"
  exits :: "nat \<Rightarrow> bool"
  ustate :: "'u"

definition log :: "event \<Rightarrow> 'u world \<Rightarrow> 'u world" where
  "log e w = w\<lparr>trace := trace w @ [e]\<rparr>"

text \<open>Calling a method body or a callback from the module: the call is logged, then it runs.\<close>

definition invoke :: "event \<Rightarrow> ('u, 'r) meth \<Rightarrow> 'u world \<Rightarrow> (error + 'r) \<times> 'u world" where
  "invoke e m w = (case m (ustate w) of (r, u) \<Rightarrow> (r, (log e w)\<lparr>ustate := u\<rparr>))"

subsection \<open>StandaloneSpoke: the continue and quit hooks\<close>

definition on_continue_clicked ::
  "'u inst \<Rightarrow> ('u, unit) meth \<Rightarrow> 'u world \<Rightarrow> (error + unit) \<times> 'u world" where
  "on_continue_clicked self cb w =
     (case invoke Apply (self_apply self) w of
        (Inl e, w') \<Rightarrow> (Inl e, w')
      | (Inr _, w') \<Rightarrow> invoke Callback cb w')"

text \<open>
  \<open>register_event_cb\<close> connects a handler to a signal of the spoke's window. The result is
  the connection made: the signal and the handler; no connection for any other event.
\<close>

definition register_event_cb ::
  "'u inst \<Rightarrow> string \<Rightarrow> ('u, unit) meth
     \<Rightarrow> (string \<times> ('u world \<Rightarrow> (error + unit) \<times> 'u world)) option" where
  "register_event_cb self event cb =
     (if event = ''continue'' then Some (''continue-clicked'', on_continue_clicked self cb)
      else if event = ''quit'' then Some (''quit-clicked'', invoke Callback cb)
      else None)"

subsection \<open>Threads and the thread manager\<close>

text \<open>\<open>Thread(name=n, target=t)\<close>: a thread object not yet started.\<close>

definition Thread :: "string \<Rightarrow> 'u callable \<Rightarrow> 'u thread" where
  "Thread n t = \<lparr>thr_name = n, thr_target = t, kill = False, thr_state = Initial\<rparr>"

text \<open>\<open>thr.kill = True\<close> on the thread object \<open>i\<close>.\<close>

definition set_kill :: "nat \<Rightarrow> 'u world \<Rightarrow> 'u world" where
  "set_kill i w = (log (SetKill i) w)\<lparr>threads := (threads w)[i := (threads w ! i)\<lparr>kill := True\<rparr>]\<rparr>"

text \<open>
  \<open>thr.join()\<close> of \<open>threading\<close>: it raises RuntimeError for a thread that was never
  started, returns at once for one that has ended, and otherwise blocks until the thread
  ends. The result None is a call that never returns: the thread never ends.
\<close>

definition Thread_join :: "nat \<Rightarrow> 'u world \<Rightarrow> ((error + unit) \<times> 'u world) option" where
  "Thread_join i w =
     (case thr_state (threads w ! i) of
        Initial \<Rightarrow> Some (Inl RuntimeError, log (Join i) w)
      | Finished \<Rightarrow> Some (Inr (), log (Join i) w)
      | Running \<Rightarrow>
          if exits w i
          then Some (Inr (),
                 (log (Join i) w)\<lparr>threads :=
                    (threads w)[i := (threads w ! i)\<lparr>thr_state := Finished\<rparr>]\<rparr>)
          else None)"

text \<open>
  Modelled from the spec: \<open>threadMgr\<close> (pyanaconda.threads) is not part of this module.
  The specification describes it as a process-wide lookup from a string name to a worker
  handle with lookup by name, which returns none if the name is absent, and registration
  by name; the back handler's new worker is registered and started under its name.
\<close>

definition threadMgr_get :: "string \<Rightarrow> 'u world \<Rightarrow> nat option \<times> 'u world" where
  "threadMgr_get n w = (threadMgr w n, log (ThreadMgrGet n) w)"

definition threadMgr_add :: "'u thread \<Rightarrow> 'u world \<Rightarrow> (error + unit) \<times> 'u world" where
  "threadMgr_add thr w =
     (let i = length (threads w)
      in (Inr (),
          (log (ThreadMgrAdd (thr_name thr) i) w)
            \<lparr>threads := threads w @ [thr\<lparr>thr_state := Running\<rparr>],
             threadMgr := (threadMgr w)(thr_name thr \<mapsto> i)\<rparr>))"

subsection \<open>NormalSpoke: the back handler\<close>

text \<open>\<open>s.replace(c, "")\<close> for a string \<open>c\<close> of one character: every \<open>c\<close> is dropped.\<close>

definition replace_by_empty :: "char \<Rightarrow> string \<Rightarrow> string" where
  "replace_by_empty c s = filter (\<lambda>x. x \<noteq> c) s"

text \<open>The local variable \<open>threadName\<close> of the back handler, for the title \<open>t\<close>.\<close>

definition threadName :: "string \<Rightarrow> string" where
  "threadName t = ''Ana'' @ replace_by_empty CHR '' '' t @ ''Check''"

text \<open>
  \<open>on_back_clicked(self, window)\<close>. \<open>self.title\<close> of an untitled spoke is None, and
  \<open>None.replace\<close> raises AttributeError. A thread object is truthy, so \<open>if thr\<close> asks
  whether the manager knew the name.
\<close>

definition on_back_clicked ::
  "'u inst \<Rightarrow> handle \<Rightarrow> 'u world \<Rightarrow> ((error + unit) \<times> 'u world) option" where
  "on_back_clicked self window w =
     (let w1 = log WindowHide w;
          w2 = log GtkMainQuit w1
      in case title (cls self) of
           None \<Rightarrow> Some (Inl AttributeError, w2)
         | Some t \<Rightarrow>
             (case threadMgr_get (threadName t) w2 of
                (None, w3) \<Rightarrow>
                  Some (threadMgr_add (Thread (threadName t) (BoundCheck self)) w3)
              | (Some thr, w3) \<Rightarrow>
                  (case Thread_join thr (set_kill thr w3) of
                     None \<Rightarrow> None
                   | Some (Inl e, w4) \<Rightarrow> Some (Inl e, w4)
                   | Some (Inr _, w4) \<Rightarrow>
                       Some (threadMgr_add (Thread (threadName t) (BoundCheck self)) w4))))"

subsection \<open>Discovery\<close>

text \<open>
  What a scanned module holds: spoke classes, and other classes, which may or may not have
  an attribute \<open>category\<close>. \<open>getattr_category\<close> is None where \<open>hasattr(obj, "category")\<close>
  is false.
\<close>

datatype 'u member = SpokeClass "'u klass" | OtherClass "classref option option"

fun getattr_category :: "'u member \<Rightarrow> classref option option" where
  "getattr_category (SpokeClass c) = Some (category c)"
| "getattr_category (OtherClass a) = a"

text \<open>
  Modelled from the spec: \<open>collect\<close> (pyanaconda.ui.gui) is not part of this module. The
  specification says that it scans the modules of a namespace for the types that satisfy a
  predicate, and that a module that fails to load is skipped. \<open>modules\<close> gives, for a
  subpackage, its modules: the members of each, or None for one that does not load.
\<close>

definition collect ::
  "(string \<Rightarrow> 'u member list option list) \<Rightarrow> string \<Rightarrow> ('u member \<Rightarrow> bool) \<Rightarrow> 'u member list" where
  "collect modules subpath pred =
     filter pred (concat (map (\<lambda>m. case m of None \<Rightarrow> [] | Some ms \<Rightarrow> ms) (modules subpath)))"

text \<open>The predicate \<open>collect_spokes\<close> passes, with Python's left-to-right \<open>and\<close>.\<close>

definition spoke_pred :: "string \<Rightarrow> 'u member \<Rightarrow> bool" where
  "spoke_pred cat obj =
     (case getattr_category obj of
        None \<Rightarrow> False
      | Some None \<Rightarrow> False
      | Some (Some c) \<Rightarrow> class_name c = cat)"

definition collect_spokes ::
  "(string \<Rightarrow> 'u member list option list) \<Rightarrow> string \<Rightarrow> 'u member list" where
  "collect_spokes modules cat = collect modules ''spokes'' (spoke_pred cat)"

subsection \<open>The flow of hubs and standalone spokes\<close>

text \<open>
  Modelled from the spec: the code that puts the hubs and the standalone spokes in sequence
  is not part of this module, which only documents the rule. The specification says that
  standalone spokes are sequenced before and after hubs by priority: the pre actions of a
  hub run before it and its post actions after it, within each group the lower priority
  first, and an action runs to completion before the next one begins. A spoke is a pre
  (post) action of the hub its \<open>preForHub\<close> (\<open>postForHub\<close>) refers to. Priorities are
  compared as they are read from the class (\<open>Some n\<close> for every class that descends from
  StandaloneSpoke); \<open>sort_key\<close> keeps the registration order among equal priorities.
\<close>

datatype 'u action = HubAction classref | SpokeAction "'u klass"

definition pre_actions :: "classref \<Rightarrow> 'u klass list \<Rightarrow> 'u klass list" where
  "pre_actions h ss = sort_key priority (filter (\<lambda>s. preForHub s = Some (Some h)) ss)"

definition post_actions :: "classref \<Rightarrow> 'u klass list \<Rightarrow> 'u klass list" where
  "post_actions h ss = sort_key priority (filter (\<lambda>s. postForHub s = Some (Some h)) ss)"

definition flow :: "classref list \<Rightarrow> 'u klass list \<Rightarrow> 'u action list" where
  "flow hubs ss =
     concat (map (\<lambda>h. map SpokeAction (pre_actions h ss) @ [HubAction h]
                        @ map SpokeAction (post_actions h ss)) hubs)"

datatype 'u step = Begin "'u action" | End "'u action"

definition run_flow :: "'u action list \<Rightarrow> 'u step list" where
  "run_flow acts = concat (map (\<lambda>a. [Begin a, End a]) acts)"

subsection \<open>Predicates of the statements\<close>

text \<open>
  Both \<open>preForHub\<close> and \<open>postForHub\<close> of a class are set: the condition
  \<open>self.preForHub and self.postForHub\<close> of \<open>StandaloneSpoke.__init__\<close>.
\<close>

definition both_set :: "'u klass \<Rightarrow> bool" where
  "both_set c =
     (case preForHub c of
        Some pre \<Rightarrow>
          truthy pre \<and> (case postForHub c of Some post \<Rightarrow> truthy post | None \<Rightarrow> False)
      | None \<Rightarrow> False)"

text \<open>The running thread that the back handler starts for a spoke, under the name \<open>n\<close>.\<close>

definition check_thread :: "'u inst \<Rightarrow> string \<Rightarrow> 'u thread" where
  "check_thread self n =
     \<lparr>thr_name = n, thr_target = BoundCheck self, kill = False, thr_state = Running\<rparr>"

text \<open>
  Every running thread is the one the manager holds under the thread's name, so that no
  two running threads have the same name.
\<close>

definition single_flight :: "'u world \<Rightarrow> bool" where
  "single_flight w =
     (\<forall>i < length (threads w).
        thr_state (threads w ! i) = Running \<longrightarrow>
        threadMgr w (thr_name (threads w ! i)) = Some i)"

subsection \<open>Example classes\<close>

definition HubA :: classref where
  "HubA = ClassRef 1 ''HubA''"

definition HubB :: classref where
  "HubB = ClassRef 2 ''HubB''"

text \<open>\<open>class PlainStandalone(StandaloneSpoke): pass\<close>, and two with hubs set.\<close>

definition PlainStandalone :: "unit klass" where
  "PlainStandalone = Subclass StandaloneSpoke pass_body"

definition WelcomeSpoke :: "unit klass" where
  "WelcomeSpoke = Subclass StandaloneSpoke (pass_body\<lparr>def_preForHub := Some (Some HubA)\<rparr>)"

definition BothSpoke :: "unit klass" where
  "BothSpoke = Subclass StandaloneSpoke
     (pass_body\<lparr>def_preForHub := Some (Some HubA), def_postForHub := Some (Some HubB)\<rparr>)"

text \<open>\<open>class BareSpoke(NormalSpoke): pass\<close>.\<close>

definition BareSpoke :: "unit klass" where
  "BareSpoke = Subclass NormalSpoke pass_body"

text \<open>NormalSpoke subclasses with a title: \<open>"Foo"\<close>, and \<open>"a\tb"\<close> with a tab in it.\<close>

definition FooSpoke :: "unit klass" where
  "FooSpoke = Subclass NormalSpoke (pass_body\<lparr>def_title := Some (Some ''Foo'')\<rparr>)"

definition TabSpoke :: "unit klass" where
  "TabSpoke = Subclass NormalSpoke
     (pass_body\<lparr>def_title := Some (Some [CHR ''a'', CHR 0x09, CHR ''b''])\<rparr>)"

text \<open>The instance that \<open>c(1, 2, 3, 4)\<close> gives for a subclass \<open>c\<close> of NormalSpoke.\<close>

definition new_spoke :: "'u klass \<Rightarrow> 'u inst" where
  "new_spoke c = \<lparr>cls = c, data = Some 1, devicetree = Some 2, payload = Some 3,
     instclass = Some 4, selector = Some None\<rparr>"

text \<open>
  A world with no thread, and one in which the check thread of a \<open>FooSpoke\<close> is running
  under the name \<open>AnaFooCheck\<close>.
\<close>

definition world0 :: "unit world" where
  "world0 = \<lparr>trace = [], threads = [], threadMgr = Map.empty, exits = (\<lambda>i. True),
     ustate = ()\<rparr>"

definition world1 :: "unit world" where
  "world1 = \<lparr>trace = [], threads = [check_thread (new_spoke FooSpoke) ''AnaFooCheck''],
     threadMgr = [''AnaFooCheck'' \<mapsto> 0], exits = (\<lambda>i. True), ustate = ()\<rparr>"

text \<open>
  A recording double: a standalone spoke whose \<open>apply\<close> appends to a log, a callback that
  does the same, and a world whose log is empty.
\<close>

definition Recorder :: "string list klass" where
  "Recorder = Subclass StandaloneSpoke
     (pass_body\<lparr>def_apply := Some (\<lambda>u. (Inr (), u @ [''apply'']))\<rparr>)"

definition record_cb :: "(string list, unit) meth" where
  "record_cb u = (Inr (), u @ [''cb''])"

definition recorder_world :: "string list world" where
  "recorder_world = \<lparr>trace = [], threads = [], threadMgr = Map.empty, exits = (\<lambda>i. True),
     ustate = []\<rparr>"

text \<open>
  Spokes on the hubs \<open>HubA\<close> and \<open>HubB\<close>, and the scanned modules of the subpackage
  \<open>spokes\<close>: one holding \<open>CatA\<close> and a class with no attribute \<open>category\<close>, one that
  does not load, and one holding \<open>CatB\<close> and \<open>BareSpoke\<close>, whose category is None.
\<close>

definition CatA :: "unit klass" where
  "CatA = Subclass NormalSpoke (pass_body\<lparr>def_category := Some (Some HubA)\<rparr>)"

definition CatB :: "unit klass" where
  "CatB = Subclass NormalSpoke (pass_body\<lparr>def_category := Some (Some HubB)\<rparr>)"

definition spoke_modules :: "string \<Rightarrow> unit member list option list" where
  "spoke_modules subpath =
     (if subpath = ''spokes''
      then [Some [SpokeClass CatA, OtherClass None], None,
            Some [SpokeClass CatB, SpokeClass BareSpoke]]
      else [])"

text \<open>Post actions of \<open>HubA\<close> with the priorities 0 and 5, and a pre action of \<open>HubB\<close>.\<close>

definition PostA0 :: "unit klass" where
  "PostA0 = Subclass StandaloneSpoke
     (pass_body\<lparr>def_postForHub := Some (Some HubA), def_priority := Some 0\<rparr>)"

definition PostA5 :: "unit klass" where
  "PostA5 = Subclass StandaloneSpoke
     (pass_body\<lparr>def_postForHub := Some (Some HubA), def_priority := Some 5\<rparr>)"

definition PreB0 :: "unit klass" where
  "PreB0 = Subclass StandaloneSpoke
     (pass_body\<lparr>def_preForHub := Some (Some HubB), def_priority := Some 0\<rparr>)"

section \<open>Construction\<close>

lemma init_root: "init c = init (root c)"
  by (induction c) simp_all

lemma root_cases:
  "root c = Spoke \<or> root c = StandaloneSpoke \<or> root c = NormalSpoke \<or> root c = PersonalizationSpoke"
  by (induction c) simp_all

lemma preForHub_standalone: "root c = StandaloneSpoke \<Longrightarrow> preForHub c \<noteq> None"
  by (induction c) (simp_all split: option.splits)

lemma postForHub_standalone: "root c = StandaloneSpoke \<Longrightarrow> postForHub c \<noteq> None"
  by (induction c) (simp_all split: option.splits)

lemma Spoke_init_Subclass:
  "Spoke_init (object_new (Subclass p b)) d dt pl ic =
     Inr \<lparr>cls = Subclass p b, data = Some d, devicetree = Some dt, payload = Some pl,
          instclass = Some ic, selector = None\<rparr>"
  by (simp add: Spoke_init_def UIObject_init_def object_new_def)

text \<open>
  What calling a subclass gives: the initialiser of the module's class it descends from
  runs, none of the abstract class guards fires, and only the guard on \<open>preForHub\<close> and
  \<open>postForHub\<close> can fail.
\<close>

lemma construct_Subclass:
  "construct (Subclass p b) d dt pl ic =
     (if root p = StandaloneSpoke \<and> both_set (Subclass p b) then Inl AttributeError
      else Inr \<lparr>cls = Subclass p b, data = Some d, devicetree = Some dt, payload = Some pl,
          instclass = Some ic, selector = (if root p = NormalSpoke then Some None else None)\<rparr>)"
proof -
  have i: "init (Subclass p b) = init (root p)"
    using init_root [of "Subclass p b"] by simp
  consider "root p = Spoke" | "root p = StandaloneSpoke" | "root p = NormalSpoke"
    | "root p = PersonalizationSpoke"
    using root_cases [of p] by blast
  then show ?thesis
  proof cases
    case 1
    then show ?thesis
      unfolding construct_def i by (simp add: Spoke_init_Subclass)
  next
    case 2
    obtain pre where pre: "preForHub (Subclass p b) = Some pre"
      using preForHub_standalone [of "Subclass p b"] 2 by auto
    obtain post where post: "postForHub (Subclass p b) = Some post"
      using postForHub_standalone [of "Subclass p b"] 2 by auto
    have c: "cls (object_new (Subclass p b)) = Subclass p b"
      by (simp add: object_new_def)
    show ?thesis
      using 2 pre post unfolding construct_def i
      by (simp add: StandaloneSpoke_init_def c both_set_def Spoke_init_Subclass
               del: preForHub.simps postForHub.simps)
  next
    case 3
    then show ?thesis
      unfolding construct_def i
      by (simp add: NormalSpoke_init_def Spoke_init_Subclass) (simp add: object_new_def)
  next
    case 4
    then show ?thesis
      unfolding construct_def i
      by (simp add: PersonalizationSpoke_init_def Spoke_init_Subclass) (simp add: object_new_def)
  qed
qed

lemma construct_abstract:
  "construct Spoke d dt pl ic = Inl TypeError"
  "construct StandaloneSpoke d dt pl ic = Inl TypeError"
  "construct NormalSpoke d dt pl ic = Inl TypeError"
  "construct PersonalizationSpoke d dt pl ic = Inl TypeError"
  by (simp_all add: construct_def Spoke_init_def StandaloneSpoke_init_def NormalSpoke_init_def
        PersonalizationSpoke_init_def object_new_def)

section \<open>Method lookup\<close>

lemma find_apply_base: "\<not> overrides_apply c \<Longrightarrow> find_apply c = Spoke_apply"
  by (induction c) (simp_all split: option.splits)

lemma find_status_base: "\<not> overrides_status c \<Longrightarrow> find_status c = Spoke_status"
  by (induction c) (simp_all split: option.splits)

lemma find_completed_base: "\<not> overrides_completed c \<Longrightarrow> find_completed c = Spoke_completed"
  by (induction c) (simp_all split: option.splits)

lemma find_ready_base:
  "root c = NormalSpoke \<Longrightarrow> \<not> overrides_ready c \<Longrightarrow> find_ready c = Some NormalSpoke_ready"
  by (induction c) (simp_all split: option.splits)

section \<open>The continue hook\<close>

lemma on_continue_clicked_run:
  "on_continue_clicked self cb w =
     (case self_apply self (ustate w) of
        (Inl e, u) \<Rightarrow> (Inl e, w\<lparr>trace := trace w @ [Apply], ustate := u\<rparr>)
      | (Inr x, u) \<Rightarrow>
          (fst (cb u), w\<lparr>trace := trace w @ [Apply, Callback], ustate := snd (cb u)\<rparr>))"
  by (simp add: on_continue_clicked_def invoke_def log_def split: prod.splits sum.splits)

section \<open>The back handler\<close>

text \<open>
  The runs of the back handler, case by case: the spoke has no title; the manager does not
  know the thread name; it knows a thread that ends when asked to (or has ended); it knows
  a running thread that never ends, and the handler stays in \<open>join\<close>; it knows a thread
  that was never started.
\<close>

lemma thr_state_update_same:
  "thr_state x = s \<Longrightarrow> x\<lparr>kill := k, thr_state := s\<rparr> = x\<lparr>kill := k\<rparr>"
  by (cases x) simp

lemma on_back_clicked_untitled:
  "title (cls self) = None \<Longrightarrow>
   on_back_clicked self window w =
     Some (Inl AttributeError, w\<lparr>trace := trace w @ [WindowHide, GtkMainQuit]\<rparr>)"
  by (simp add: on_back_clicked_def log_def)

lemma on_back_clicked_fresh:
  assumes "title (cls self) = Some t" and "threadMgr w (threadName t) = None"
  shows "on_back_clicked self window w =
     Some (Inr (),
       w\<lparr>trace := trace w @ [WindowHide, GtkMainQuit, ThreadMgrGet (threadName t),
                    ThreadMgrAdd (threadName t) (length (threads w))],
         threads := threads w @ [check_thread self (threadName t)],
         threadMgr := (threadMgr w)(threadName t \<mapsto> length (threads w))\<rparr>)"
  using assms
  by (simp add: on_back_clicked_def log_def threadMgr_get_def threadMgr_add_def Thread_def
        check_thread_def Let_def)

lemma on_back_clicked_restart:
  assumes "title (cls self) = Some t" and "threadMgr w (threadName t) = Some i"
    and "thr_state (threads w ! i) \<noteq> Initial"
    and "thr_state (threads w ! i) = Running \<longrightarrow> exits w i"
    and "i < length (threads w)"
  shows "on_back_clicked self window w =
     Some (Inr (),
       w\<lparr>trace := trace w @ [WindowHide, GtkMainQuit, ThreadMgrGet (threadName t),
                    SetKill i, Join i, ThreadMgrAdd (threadName t) (length (threads w))],
         threads := (threads w)[i := (threads w ! i)\<lparr>kill := True, thr_state := Finished\<rparr>]
                    @ [check_thread self (threadName t)],
         threadMgr := (threadMgr w)(threadName t \<mapsto> length (threads w))\<rparr>)"
  using assms
  by (cases "thr_state (threads w ! i)")
     (simp_all add: on_back_clicked_def log_def threadMgr_get_def threadMgr_add_def Thread_def
        check_thread_def Let_def set_kill_def Thread_join_def thr_state_update_same)

lemma on_back_clicked_blocked:
  assumes "title (cls self) = Some t" and "threadMgr w (threadName t) = Some i"
    and "i < length (threads w)"
    and "thr_state (threads w ! i) = Running" and "\<not> exits w i"
  shows "on_back_clicked self window w = None"
  using assms
  by (simp add: on_back_clicked_def log_def threadMgr_get_def Let_def set_kill_def Thread_join_def)

lemma on_back_clicked_unstarted:
  assumes "title (cls self) = Some t" and "threadMgr w (threadName t) = Some i"
    and "i < length (threads w)"
    and "thr_state (threads w ! i) = Initial"
  shows "on_back_clicked self window w =
     Some (Inl RuntimeError,
       w\<lparr>trace := trace w @ [WindowHide, GtkMainQuit, ThreadMgrGet (threadName t),
                    SetKill i, Join i],
         threads := (threads w)[i := (threads w ! i)\<lparr>kill := True\<rparr>]\<rparr>)"
  using assms
  by (simp add: on_back_clicked_def log_def threadMgr_get_def Let_def set_kill_def Thread_join_def)

lemma single_flight_fresh:
  assumes "single_flight w" and "threadMgr w n = None"
  shows "single_flight (w\<lparr>trace := tr, threads := threads w @ [check_thread self n],
           threadMgr := (threadMgr w)(n \<mapsto> length (threads w))\<rparr>)"
  using assms
  by (auto simp: single_flight_def nth_append check_thread_def)

lemma single_flight_restart:
  assumes "single_flight w" and "threadMgr w n = Some i" and "i < length (threads w)"
  shows "single_flight (w\<lparr>trace := tr,
           threads := (threads w)[i := (threads w ! i)\<lparr>kill := True, thr_state := Finished\<rparr>]
                      @ [check_thread self n],
           threadMgr := (threadMgr w)(n \<mapsto> length (threads w))\<rparr>)"
  using assms
  by (auto simp: single_flight_def nth_append check_thread_def nth_list_update)

lemma single_flight_kill:
  assumes "single_flight w"
  shows "single_flight
           (w\<lparr>trace := tr, threads := (threads w)[i := (threads w ! i)\<lparr>kill := True\<rparr>]\<rparr>)"
proof (cases "i < length (threads w)")
  case True
  then show ?thesis
    using assms by (auto simp: single_flight_def nth_list_update)
next
  case False
  then show ?thesis
    using assms by (simp add: single_flight_def list_update_beyond)
qed

text \<open>
  The handler keeps the invariant that a running thread is the one registered under its
  name: the thread it finds is joined, hence ended, before the new one is started.
\<close>

lemma on_back_clicked_single_flight:
  assumes sf: "single_flight w"
    and wf: "\<And>n i. threadMgr w n = Some i \<Longrightarrow> i < length (threads w)"
    and run: "on_back_clicked self window w = Some (r, w')"
  shows "single_flight w'"
proof (cases "title (cls self)")
  case None
  then have "w' = w\<lparr>trace := trace w @ [WindowHide, GtkMainQuit]\<rparr>"
    using run by (simp add: on_back_clicked_untitled)
  then show ?thesis
    using sf by (simp add: single_flight_def)
next
  case (Some t)
  show ?thesis
  proof (cases "threadMgr w (threadName t)")
    case None
    then have "w' = w\<lparr>trace := trace w @ [WindowHide, GtkMainQuit, ThreadMgrGet (threadName t),
                    ThreadMgrAdd (threadName t) (length (threads w))],
         threads := threads w @ [check_thread self (threadName t)],
         threadMgr := (threadMgr w)(threadName t \<mapsto> length (threads w))\<rparr>"
      using run by (simp add: on_back_clicked_fresh [OF Some None])
    then show ?thesis
      using single_flight_fresh [OF sf None] by simp
  next
    case reg: (Some i)
    have i: "i < length (threads w)"
      using wf reg by simp
    show ?thesis
    proof (cases "thr_state (threads w ! i)")
      case Initial
      then have "w' = w\<lparr>trace := trace w @ [WindowHide, GtkMainQuit,
                    ThreadMgrGet (threadName t), SetKill i, Join i],
         threads := (threads w)[i := (threads w ! i)\<lparr>kill := True\<rparr>]\<rparr>"
        using run by (simp add: on_back_clicked_unstarted [OF Some reg i Initial])
      then show ?thesis
        using single_flight_kill [OF sf] by simp
    next
      case Running
      show ?thesis
      proof (cases "exits w i")
        case True
        then have "w' = w\<lparr>trace := trace w @ [WindowHide, GtkMainQuit,
                    ThreadMgrGet (threadName t), SetKill i, Join i,
                    ThreadMgrAdd (threadName t) (length (threads w))],
           threads := (threads w)[i := (threads w ! i)\<lparr>kill := True, thr_state := Finished\<rparr>]
                      @ [check_thread self (threadName t)],
           threadMgr := (threadMgr w)(threadName t \<mapsto> length (threads w))\<rparr>"
          using run Running by (simp add: on_back_clicked_restart [OF Some reg _ _ i])
        then show ?thesis
          using single_flight_restart [OF sf reg i] by simp
      next
        case False
        then show ?thesis
          using run by (simp add: on_back_clicked_blocked [OF Some reg i Running])
      qed
    next
      case Finished
      then have "w' = w\<lparr>trace := trace w @ [WindowHide, GtkMainQuit,
                    ThreadMgrGet (threadName t), SetKill i, Join i,
                    ThreadMgrAdd (threadName t) (length (threads w))],
           threads := (threads w)[i := (threads w ! i)\<lparr>kill := True, thr_state := Finished\<rparr>]
                      @ [check_thread self (threadName t)],
           threadMgr := (threadMgr w)(threadName t \<mapsto> length (threads w))\<rparr>"
        using run by (simp add: on_back_clicked_restart [OF Some reg _ _ i])
      then show ?thesis
        using single_flight_restart [OF sf reg i] by simp
    qed
  qed
qed

text \<open>A run that returns normally has started one thread, under the spoke's thread name.\<close>

lemma on_back_clicked_started:
  assumes "title (cls self) = Some t"
    and "on_back_clicked self window w = Some (Inr (), w')"
  shows "threadMgr w' (threadName t) = Some (length (threads w))
       \<and> length (threads w') = Suc (length (threads w))
       \<and> last (threads w') = check_thread self (threadName t)"
  using assms
  by (auto simp: on_back_clicked_def log_def threadMgr_get_def threadMgr_add_def Thread_def
        check_thread_def Let_def set_kill_def Thread_join_def
      split: option.splits tstate.splits if_splits)

section \<open>Discovery\<close>

lemma set_collect:
  "set (collect modules subpath pred) =
     {obj. (\<exists>ms. Some ms \<in> set (modules subpath) \<and> obj \<in> set ms) \<and> pred obj}"
  by (auto simp: collect_def split: option.splits)

lemma spoke_pred_iff:
  "spoke_pred cat obj \<longleftrightarrow> (\<exists>c. getattr_category obj = Some (Some c) \<and> class_name c = cat)"
  by (simp add: spoke_pred_def split: option.splits)

section \<open>The flow\<close>

lemma run_flow_append: "run_flow (xs @ ys) = run_flow xs @ run_flow ys"
  by (simp add: run_flow_def)

lemma run_flow_Cons: "run_flow (a # xs) = Begin a # End a # run_flow xs"
  by (simp add: run_flow_def)

lemma run_flow_Nil: "run_flow [] = []"
  by (simp add: run_flow_def)

lemma flow_append: "flow (hs @ hs') ss = flow hs ss @ flow hs' ss"
  by (simp add: flow_def)

lemma flow_Cons:
  "flow (h # hs) ss =
     map SpokeAction (pre_actions h ss) @ [HubAction h] @ map SpokeAction (post_actions h ss)
     @ flow hs ss"
  by (simp add: flow_def)

lemma run_flow_split:
  assumes "a \<in> set acts"
  shows "\<exists>p q. run_flow acts = p @ Begin a # End a # q"
proof -
  obtain l r where "acts = l @ a # r"
    using assms by (meson split_list)
  then have "run_flow acts = run_flow l @ Begin a # End a # run_flow r"
    by (simp add: run_flow_append run_flow_Cons)
  then show ?thesis by blast
qed

lemma flow_adjacent:
  "run_flow (flow (hs @ [h1, h2] @ hs') ss) =
      run_flow (flow hs ss @ map SpokeAction (pre_actions h1 ss) @ [HubAction h1])
      @ run_flow (map SpokeAction (post_actions h1 ss))
      @ run_flow (map SpokeAction (pre_actions h2 ss))
      @ run_flow ([HubAction h2] @ map SpokeAction (post_actions h2 ss) @ flow hs' ss)"
  by (simp add: flow_append flow_Cons run_flow_append run_flow_Cons run_flow_Nil)

lemma flow_post_before_pre:
  assumes "a \<in> set (post_actions h1 ss)" and "b \<in> set (pre_actions h2 ss)"
  shows "\<exists>xs ys zs. run_flow (flow (hs @ [h1, h2] @ hs') ss) =
           xs @ End (SpokeAction a) # ys @ Begin (SpokeAction b) # zs"
proof -
  obtain p1 p2 where p: "run_flow (map SpokeAction (post_actions h1 ss)) =
      p1 @ Begin (SpokeAction a) # End (SpokeAction a) # p2"
    using run_flow_split [of "SpokeAction a" "map SpokeAction (post_actions h1 ss)"] assms(1)
    by auto
  obtain q1 q2 where q: "run_flow (map SpokeAction (pre_actions h2 ss)) =
      q1 @ Begin (SpokeAction b) # End (SpokeAction b) # q2"
    using run_flow_split [of "SpokeAction b" "map SpokeAction (pre_actions h2 ss)"] assms(2)
    by auto
  let ?before = "run_flow (flow hs ss @ map SpokeAction (pre_actions h1 ss) @ [HubAction h1])"
  let ?after = "run_flow ([HubAction h2] @ map SpokeAction (post_actions h2 ss) @ flow hs' ss)"
  have "run_flow (flow (hs @ [h1, h2] @ hs') ss) =
      (?before @ p1 @ [Begin (SpokeAction a)]) @ End (SpokeAction a) # (p2 @ q1)
      @ Begin (SpokeAction b) # (End (SpokeAction b) # q2 @ ?after)"
    unfolding flow_adjacent p q by simp
  then show ?thesis by blast
qed

section \<open>The claims\<close>

subsection \<open>C1: the back handler restarts the check thread\<close>

text \<open>
  Claim C1 says that for every NormalSpoke the back handler kills and joins the check
  thread registered under the spoke's thread name, if there is one, and then in all cases
  starts one new check thread under that name. The documentation of the class attributes
  allows a spoke without a title. \<open>BareSpoke\<close> is one: it can be constructed, and on its
  instance the handler raises AttributeError after hiding the window and leaving the main
  loop, and starts no thread. (For a spoke with a title the handler does what the claim
  says: \<open>on_back_clicked_fresh\<close>, \<open>on_back_clicked_restart\<close>,
  \<open>on_back_clicked_single_flight\<close>.)
\<close>

theorem back_untitled_starts_no_check:
  "title BareSpoke = None
   \<and> construct BareSpoke 1 2 3 4 = Inr (new_spoke BareSpoke)
   \<and> on_back_clicked (new_spoke BareSpoke) 0 world0 =
       Some (Inl AttributeError, world0\<lparr>trace := [WindowHide, GtkMainQuit]\<rparr>)
   \<and> threads (world0\<lparr>trace := [WindowHide, GtkMainQuit]\<rparr>) = []"
  using construct_Subclass [of NormalSpoke pass_body 1 2 3 4]
  by (simp add: BareSpoke_def pass_body_def new_spoke_def on_back_clicked_untitled world0_def)

subsection \<open>C2: the abstract class guards\<close>

text \<open>
  Claim C2 says that constructing any proper concrete subclass of the four abstract classes
  succeeds. \<open>BothSpoke\<close> is a proper subclass of StandaloneSpoke with both \<open>preForHub\<close> and
  \<open>postForHub\<close> set, and constructing it raises AttributeError.
\<close>

theorem construct_both_set_counterexample:
  "root BothSpoke = StandaloneSpoke \<and> BothSpoke \<noteq> StandaloneSpoke
   \<and> construct BothSpoke 1 2 3 4 = Inl AttributeError"
  by (simp add: BothSpoke_def construct_def StandaloneSpoke_init_def object_new_def)

text \<open>
  Claim C2, amended. Constructing Spoke, StandaloneSpoke, NormalSpoke or
  PersonalizationSpoke itself fails with TypeError (the specification's
  AbstractInstantiationError). Constructing a proper subclass succeeds and stores the four
  handles (a NormalSpoke's selector being None), unless the subclass descends from
  StandaloneSpoke and has both \<open>preForHub\<close> and \<open>postForHub\<close> set, in which case it fails
  with AttributeError.
\<close>

theorem construct_abstract_or_subclass:
  "construct (Spoke :: 'u klass) d dt pl ic = Inl TypeError
   \<and> construct (StandaloneSpoke :: 'u klass) d dt pl ic = Inl TypeError
   \<and> construct (NormalSpoke :: 'u klass) d dt pl ic = Inl TypeError
   \<and> construct (PersonalizationSpoke :: 'u klass) d dt pl ic = Inl TypeError
   \<and> construct (Subclass p b :: 'u klass) d dt pl ic =
       (if root p = StandaloneSpoke \<and> both_set (Subclass p b) then Inl AttributeError
        else Inr \<lparr>cls = Subclass p b, data = Some d, devicetree = Some dt, payload = Some pl,
               instclass = Some ic,
               selector = (if root p = NormalSpoke then Some None else None)\<rparr>)"
  using construct_Subclass [of p b d dt pl ic] by (simp add: construct_abstract)

theorem construct_abstract_or_subclass_witness:
  "construct (Spoke :: unit klass) 1 2 3 4 = Inl TypeError
   \<and> construct (StandaloneSpoke :: unit klass) 1 2 3 4 = Inl TypeError
   \<and> construct (NormalSpoke :: unit klass) 1 2 3 4 = Inl TypeError
   \<and> construct (PersonalizationSpoke :: unit klass) 1 2 3 4 = Inl TypeError
   \<and> construct BareSpoke 1 2 3 4 =
         Inr \<lparr>cls = BareSpoke, data = Some 1, devicetree = Some 2,
              payload = Some 3, instclass = Some 4, selector = Some None\<rparr>"
  using construct_abstract_or_subclass [where ?'u = unit, of 1 2 3 4 NormalSpoke pass_body]
  by (simp add: BareSpoke_def)

subsection \<open>C3: preForHub and postForHub exclude each other\<close>

text \<open>
  Claim C3. Constructing a standalone spoke (an instance of a proper subclass of
  StandaloneSpoke) whose \<open>preForHub\<close> and \<open>postForHub\<close> are both not None fails with
  AttributeError (the specification's InvalidConfigurationError); when one of them or
  neither is set, the construction succeeds.
\<close>

theorem standalone_pre_post_guard:
  assumes "root p = StandaloneSpoke"
    and "preForHub (Subclass p b) = Some pre"
    and "postForHub (Subclass p b) = Some post"
  shows "(pre \<noteq> None \<and> post \<noteq> None \<longrightarrow>
            construct (Subclass p b) d dt pl ic = Inl AttributeError)
       \<and> (pre = None \<or> post = None \<longrightarrow>
            construct (Subclass p b) d dt pl ic =
              Inr \<lparr>cls = Subclass p b, data = Some d, devicetree = Some dt,
                   payload = Some pl, instclass = Some ic, selector = None\<rparr>)"
proof -
  have "both_set (Subclass p b) = (pre \<noteq> None \<and> post \<noteq> None)"
    using assms(2,3)
    by (cases pre; cases post)
       (simp_all add: both_set_def del: preForHub.simps postForHub.simps)
  then show ?thesis
    using assms(1) construct_Subclass [of p b d dt pl ic] by auto
qed

theorem standalone_pre_post_guard_witness:
  "construct BothSpoke 1 2 3 4 = Inl AttributeError
   \<and> construct WelcomeSpoke 1 2 3 4 =
        Inr \<lparr>cls = WelcomeSpoke, data = Some 1, devicetree = Some 2,
             payload = Some 3, instclass = Some 4, selector = None\<rparr>
   \<and> construct PlainStandalone 1 2 3 4 =
        Inr \<lparr>cls = PlainStandalone, data = Some 1, devicetree = Some 2,
             payload = Some 3, instclass = Some 4, selector = None\<rparr>"
  using
    standalone_pre_post_guard [of StandaloneSpoke
       "pass_body\<lparr>def_preForHub := Some (Some HubA), def_postForHub := Some (Some HubB)\<rparr>"
       "Some HubA" "Some HubB" 1 2 3 4]
    standalone_pre_post_guard [of StandaloneSpoke
       "pass_body\<lparr>def_preForHub := Some (Some HubA)\<rparr>" "Some HubA" None 1 2 3 4]
    standalone_pre_post_guard [of StandaloneSpoke pass_body None None 1 2 3 4]
  by (simp add: BothSpoke_def WelcomeSpoke_def PlainStandalone_def pass_body_def)

subsection \<open>C4: discovery by category\<close>

text \<open>
  Claim C4. \<open>collect_spokes\<close> returns exactly the members of the loadable modules that
  have an attribute \<open>category\<close>, whose category is not None, and whose category's
  \<open>__name__\<close> is the requested one; a member with no category attribute, with the category
  None or with a category of another name is left out, and when no member matches the
  result is empty.
\<close>

theorem collect_spokes_exact:
  "set (collect_spokes modules cat) =
     {obj. (\<exists>ms. Some ms \<in> set (modules ''spokes'') \<and> obj \<in> set ms)
           \<and> (\<exists>c. getattr_category obj = Some (Some c) \<and> class_name c = cat)}
   \<and> ((\<forall>ms obj c. Some ms \<in> set (modules ''spokes'') \<longrightarrow> obj \<in> set ms \<longrightarrow>
           getattr_category obj = Some (Some c) \<longrightarrow> class_name c \<noteq> cat)
        \<longrightarrow> collect_spokes modules cat = [])"
proof -
  have s: "set (collect_spokes modules cat) =
     {obj. (\<exists>ms. Some ms \<in> set (modules ''spokes'') \<and> obj \<in> set ms)
           \<and> (\<exists>c. getattr_category obj = Some (Some c) \<and> class_name c = cat)}"
    by (simp add: collect_spokes_def set_collect spoke_pred_iff)
  have "collect_spokes modules cat = []"
    if "\<forall>ms obj c. Some ms \<in> set (modules ''spokes'') \<longrightarrow> obj \<in> set ms \<longrightarrow>
           getattr_category obj = Some (Some c) \<longrightarrow> class_name c \<noteq> cat"
  proof -
    have "set (collect_spokes modules cat) = {}"
      unfolding s using that by blast
    then show ?thesis by simp
  qed
  then show ?thesis
    using s by blast
qed

theorem collect_spokes_exact_witness:
  "collect_spokes spoke_modules ''HubA'' = [SpokeClass CatA]
   \<and> collect_spokes spoke_modules ''HubB'' = [SpokeClass CatB]
   \<and> collect_spokes spoke_modules ''HubC'' = []"
proof -
  have a: "collect_spokes spoke_modules ''HubA'' = [SpokeClass CatA]"
    by (simp add: collect_spokes_def collect_def spoke_modules_def spoke_pred_def CatA_def CatB_def
          BareSpoke_def pass_body_def HubA_def HubB_def)
  have b: "collect_spokes spoke_modules ''HubB'' = [SpokeClass CatB]"
    by (simp add: collect_spokes_def collect_def spoke_modules_def spoke_pred_def CatA_def CatB_def
          BareSpoke_def pass_body_def HubA_def HubB_def)
  have n: "\<forall>ms obj c. Some ms \<in> set (spoke_modules ''spokes'') \<longrightarrow> obj \<in> set ms \<longrightarrow>
           getattr_category obj = Some (Some c) \<longrightarrow> class_name c \<noteq> ''HubC''"
    by (auto simp: spoke_modules_def CatA_def CatB_def BareSpoke_def pass_body_def HubA_def HubB_def)
  show ?thesis
    using collect_spokes_exact [of spoke_modules "''HubC''"] a b n by blast
qed

subsection \<open>C5: apply before the continue callback\<close>

text \<open>
  Claim C5. The handler that \<open>register_event_cb\<close> connects for the event \<open>continue\<close>
  calls \<open>apply()\<close> first and the callback after it, never the other way round: run in any
  world, for any implementation of \<open>apply\<close> and any callback, it adds to the trace of calls
  either \<open>Apply\<close> then \<open>Callback\<close>, the callback running on the state that \<open>apply\<close> left
  and giving the result, or, when \<open>apply\<close> raises, \<open>Apply\<close> alone, the exception being
  the result.
\<close>

theorem continue_applies_before_callback:
  assumes "register_event_cb self ''continue'' cb = Some (signal, handler)"
    and "handler w = (r, w')"
  shows "signal = ''continue-clicked''
       \<and> (case self_apply self (ustate w) of
            (Inl e, u) \<Rightarrow> r = Inl e \<and> trace w' = trace w @ [Apply] \<and> ustate w' = u
          | (Inr x, u) \<Rightarrow> trace w' = trace w @ [Apply, Callback] \<and> (r, ustate w') = cb u)"
proof -
  have "signal = ''continue-clicked''" and h: "handler = on_continue_clicked self cb"
    using assms(1) by (simp_all add: register_event_cb_def)
  moreover have "on_continue_clicked self cb w = (r, w')"
    using assms(2) h by simp
  ultimately show ?thesis
    by (auto simp: on_continue_clicked_run split: prod.splits sum.splits)
qed

theorem continue_applies_before_callback_witness:
  "register_event_cb (object_new Recorder) ''continue'' record_cb
     = Some (''continue-clicked'', on_continue_clicked (object_new Recorder) record_cb)
   \<and> fst (on_continue_clicked (object_new Recorder) record_cb recorder_world) = Inr ()
   \<and> trace (snd (on_continue_clicked (object_new Recorder) record_cb recorder_world))
        = [Apply, Callback]
   \<and> ustate (snd (on_continue_clicked (object_new Recorder) record_cb recorder_world))
        = [''apply'', ''cb'']"
proof -
  let ?self = "object_new Recorder"
  let ?h = "on_continue_clicked ?self record_cb"
  have reg: "register_event_cb ?self ''continue'' record_cb = Some (''continue-clicked'', ?h)"
    by (simp add: register_event_cb_def)
  have run: "?h recorder_world = (fst (?h recorder_world), snd (?h recorder_world))"
    by simp
  have a: "self_apply ?self (ustate recorder_world) = (Inr (), [''apply''])"
    by (simp add: self_apply_def object_new_def Recorder_def recorder_world_def)
  show ?thesis
    using continue_applies_before_callback [OF reg run] a reg
    by (simp add: record_cb_def recorder_world_def)
qed

subsection \<open>C6: the name of the check thread\<close>

text \<open>
  Claim C6 says that the thread name is the title with whitespace removed, between a fixed
  prefix and suffix. The title of \<open>TabSpoke\<close> is \<open>a\<close>, a tab, \<open>b\<close>; the back handler
  registers its check thread under a name that still has the tab.
\<close>

theorem back_keeps_tab_counterexample:
  "title TabSpoke = Some [CHR ''a'', CHR 0x09, CHR ''b'']
   \<and> on_back_clicked (new_spoke TabSpoke) 0 world0 =
       Some (Inr (),
         world0\<lparr>trace := [WindowHide, GtkMainQuit,
                    ThreadMgrGet (''Ana'' @ [CHR ''a'', CHR 0x09, CHR ''b''] @ ''Check''),
                    ThreadMgrAdd (''Ana'' @ [CHR ''a'', CHR 0x09, CHR ''b''] @ ''Check'') 0],
           threads := [check_thread (new_spoke TabSpoke)
                        (''Ana'' @ [CHR ''a'', CHR 0x09, CHR ''b''] @ ''Check'')],
           threadMgr := [''Ana'' @ [CHR ''a'', CHR 0x09, CHR ''b''] @ ''Check'' \<mapsto> 0]\<rparr>)"
proof -
  have t: "title (cls (new_spoke TabSpoke)) = Some [CHR ''a'', CHR 0x09, CHR ''b'']"
    by (simp add: new_spoke_def TabSpoke_def)
  have n: "threadName [CHR ''a'', CHR 0x09, CHR ''b''] = ''Ana'' @ [CHR ''a'', CHR 0x09, CHR ''b''] @ ''Check''"
    by (simp add: threadName_def replace_by_empty_def)
  have r: "threadMgr world0 (threadName [CHR ''a'', CHR 0x09, CHR ''b'']) = None"
    by (simp add: world0_def)
  show ?thesis
    using on_back_clicked_fresh [OF t r, of 0] t
    by (simp add: n new_spoke_def world0_def)
qed

text \<open>
  Claim C6, amended. For a spoke with a title, a back handler that returns normally has
  registered and started the check thread under the name \<open>Ana\<close>, then the title with
  every space character (and no other character) removed, then \<open>Check\<close>: the manager
  holds, under that name, the newest thread object, which has that name, runs the spoke's
  \<open>check\<close> and is running. A spoke titled \<open>Foo\<close> gets \<open>AnaFooCheck\<close>.
\<close>

theorem check_thread_name:
  assumes "title (cls self) = Some t"
    and "on_back_clicked self window w = Some (Inr (), w')"
  shows "threadMgr w' (''Ana'' @ filter (\<lambda>c. c \<noteq> CHR '' '') t @ ''Check'')
           = Some (length (threads w))
       \<and> length (threads w') = Suc (length (threads w))
       \<and> last (threads w') =
           check_thread self (''Ana'' @ filter (\<lambda>c. c \<noteq> CHR '' '') t @ ''Check'')"
  using on_back_clicked_started [OF assms]
  by (simp add: threadName_def replace_by_empty_def)

theorem check_thread_name_witness:
  "title (cls (new_spoke FooSpoke)) = Some ''Foo''
   \<and> on_back_clicked (new_spoke FooSpoke) 0 world0 =
       Some (Inr (),
         world0\<lparr>trace := [WindowHide, GtkMainQuit, ThreadMgrGet ''AnaFooCheck'',
                    ThreadMgrAdd ''AnaFooCheck'' 0],
           threads := [check_thread (new_spoke FooSpoke) ''AnaFooCheck''],
           threadMgr := [''AnaFooCheck'' \<mapsto> 0]\<rparr>)
   \<and> threadMgr (world0\<lparr>trace := [WindowHide, GtkMainQuit, ThreadMgrGet ''AnaFooCheck'',
                    ThreadMgrAdd ''AnaFooCheck'' 0],
           threads := [check_thread (new_spoke FooSpoke) ''AnaFooCheck''],
           threadMgr := [''AnaFooCheck'' \<mapsto> 0]\<rparr>) ''AnaFooCheck'' = Some 0"
proof -
  have t: "title (cls (new_spoke FooSpoke)) = Some ''Foo''"
    by (simp add: new_spoke_def FooSpoke_def)
  have n: "threadName ''Foo'' = ''AnaFooCheck''"
    by (simp add: threadName_def replace_by_empty_def)
  have r: "threadMgr world0 (threadName ''Foo'') = None"
    by (simp add: world0_def)
  have run: "on_back_clicked (new_spoke FooSpoke) 0 world0 =
       Some (Inr (),
         world0\<lparr>trace := [WindowHide, GtkMainQuit, ThreadMgrGet ''AnaFooCheck'',
                    ThreadMgrAdd ''AnaFooCheck'' 0],
           threads := [check_thread (new_spoke FooSpoke) ''AnaFooCheck''],
           threadMgr := [''AnaFooCheck'' \<mapsto> 0]\<rparr>)"
    using on_back_clicked_fresh [OF t r, of 0] by (simp add: n world0_def)
  show ?thesis
    using check_thread_name [OF t run] t run by simp
qed

subsection \<open>C7: the defaults of completed and ready\<close>

text \<open>
  Claim C7. A concrete subclass of NormalSpoke that overrides neither \<open>completed\<close> nor
  \<open>ready\<close> (the minimal subclass among them) can be constructed, and on the instance
  \<open>completed\<close> is False and \<open>ready\<close> is True, whatever the state.
\<close>

theorem completed_ready_defaults:
  assumes "root p = NormalSpoke"
    and "\<not> overrides_completed (Subclass p b)"
    and "\<not> overrides_ready (Subclass p b)"
  shows "\<exists>self. construct (Subclass p b) d dt pl ic = Inr self
           \<and> self_completed self u = (Inr False, u)
           \<and> self_ready self u = (Inr True, u)"
proof -
  let ?self = "\<lparr>cls = Subclass p b, data = Some d, devicetree = Some dt, payload = Some pl,
                  instclass = Some ic, selector = Some None\<rparr>"
  have c: "construct (Subclass p b) d dt pl ic = Inr ?self"
    using assms(1) construct_Subclass [of p b d dt pl ic] by simp
  have r: "root (Subclass p b) = NormalSpoke"
    using assms(1) by simp
  have "self_completed ?self u = (Inr False, u)"
    using find_completed_base [OF assms(2)] by (simp add: self_completed_def Spoke_completed_def)
  moreover have "self_ready ?self u = (Inr True, u)"
    using find_ready_base [OF r assms(3)] by (simp add: self_ready_def NormalSpoke_ready_def)
  ultimately show ?thesis
    using c by blast
qed

theorem completed_ready_defaults_witness:
  "root (NormalSpoke :: unit klass) = NormalSpoke
   \<and> \<not> overrides_completed BareSpoke \<and> \<not> overrides_ready BareSpoke
   \<and> (\<exists>self. construct BareSpoke 1 2 3 4 = Inr self
           \<and> self_completed self () = (Inr False, ())
           \<and> self_ready self () = (Inr True, ()))"
  using completed_ready_defaults [of NormalSpoke pass_body 1 2 3 4 "()"]
  by (simp add: BareSpoke_def pass_body_def)

subsection \<open>C8: apply and status must be provided by the subclass\<close>

text \<open>
  Claim C8. On an instance whose class does not override \<open>apply\<close>, calling \<open>apply()\<close>
  raises NotImplementedError; on one whose class does not override \<open>status\<close>, reading
  \<open>status\<close> raises NotImplementedError. Neither changes the state.
\<close>

theorem apply_status_not_implemented:
  "(\<not> overrides_apply (cls self) \<longrightarrow> self_apply self u = (Inl NotImplementedError, u))
   \<and> (\<not> overrides_status (cls self) \<longrightarrow> self_status self u = (Inl NotImplementedError, u))"
  by (simp add: self_apply_def self_status_def find_apply_base find_status_base
        Spoke_apply_def Spoke_status_def)

theorem apply_status_not_implemented_witness:
  "\<not> overrides_apply BareSpoke \<and> \<not> overrides_status BareSpoke
   \<and> self_apply (object_new BareSpoke) () = (Inl NotImplementedError, ())
   \<and> self_status (object_new BareSpoke) () = (Inl NotImplementedError, ())"
  using apply_status_not_implemented [of "object_new BareSpoke" "()"]
  by (simp add: BareSpoke_def pass_body_def object_new_def)

subsection \<open>C9: the sequence of hubs and standalone spokes\<close>

text \<open>
  Claim C9. Where the hub \<open>h2\<close> follows the hub \<open>h1\<close>, the flow runs all post actions
  of \<open>h1\<close> and then, with nothing in between, the pre actions of \<open>h2\<close>, so that each
  post action of \<open>h1\<close> has ended before any pre action of \<open>h2\<close> begins. The pre actions
  and the post actions of a hub run in the order of their priorities, the lower first, and
  are the registered spokes that name the hub, in whatever order they were registered.
\<close>

theorem flow_sequencing:
  "(\<exists>before after.
      run_flow (flow (hs @ [h1, h2] @ hs') ss) =
        before @ run_flow (map SpokeAction (post_actions h1 ss))
               @ run_flow (map SpokeAction (pre_actions h2 ss)) @ after)
   \<and> (\<forall>a \<in> set (post_actions h1 ss). \<forall>b \<in> set (pre_actions h2 ss).
        \<exists>xs ys zs. run_flow (flow (hs @ [h1, h2] @ hs') ss) =
           xs @ End (SpokeAction a) # ys @ Begin (SpokeAction b) # zs)
   \<and> sorted (map priority (pre_actions h ss))
   \<and> sorted (map priority (post_actions h ss))
   \<and> set (pre_actions h ss) = {s \<in> set ss. preForHub s = Some (Some h)}
   \<and> set (post_actions h ss) = {s \<in> set ss. postForHub s = Some (Some h)}"
proof -
  have "\<exists>before after.
      run_flow (flow (hs @ [h1, h2] @ hs') ss) =
        before @ run_flow (map SpokeAction (post_actions h1 ss))
               @ run_flow (map SpokeAction (pre_actions h2 ss)) @ after"
    using flow_adjacent [of hs h1 h2 hs' ss] by blast
  moreover have "\<forall>a \<in> set (post_actions h1 ss). \<forall>b \<in> set (pre_actions h2 ss).
        \<exists>xs ys zs. run_flow (flow (hs @ [h1, h2] @ hs') ss) =
           xs @ End (SpokeAction a) # ys @ Begin (SpokeAction b) # zs"
    using flow_post_before_pre by blast
  moreover have "sorted (map priority (pre_actions h ss))"
    and "sorted (map priority (post_actions h ss))"
    by (simp_all add: pre_actions_def post_actions_def)
  moreover have "set (pre_actions h ss) = {s \<in> set ss. preForHub s = Some (Some h)}"
    and "set (post_actions h ss) = {s \<in> set ss. postForHub s = Some (Some h)}"
    by (simp_all add: pre_actions_def post_actions_def)
  ultimately show ?thesis by blast
qed

theorem flow_sequencing_witness:
  "run_flow (flow [HubA, HubB] [PreB0, PostA5, PostA0]) =
     [Begin (HubAction HubA), End (HubAction HubA),
      Begin (SpokeAction PostA0), End (SpokeAction PostA0),
      Begin (SpokeAction PostA5), End (SpokeAction PostA5),
      Begin (SpokeAction PreB0), End (SpokeAction PreB0),
      Begin (HubAction HubB), End (HubAction HubB)]"
proof -
  have "post_actions HubA [PreB0, PostA5, PostA0] = [PostA0, PostA5]"
    by (simp add: post_actions_def PreB0_def PostA5_def PostA0_def pass_body_def HubA_def HubB_def)
  moreover have "pre_actions HubB [PreB0, PostA5, PostA0] = [PreB0]"
    by (simp add: pre_actions_def PreB0_def PostA5_def PostA0_def pass_body_def HubA_def HubB_def)
  moreover have "pre_actions HubA [PreB0, PostA5, PostA0] = []"
    by (simp add: pre_actions_def PreB0_def PostA5_def PostA0_def pass_body_def HubA_def HubB_def)
  moreover have "post_actions HubB [PreB0, PostA5, PostA0] = []"
    by (simp add: post_actions_def PreB0_def PostA5_def PostA0_def pass_body_def HubA_def HubB_def)
  ultimately show ?thesis
    using flow_sequencing [of "[]" HubA HubB "[]" "[PreB0, PostA5, PostA0]" HubA]
    by (simp add: flow_def run_flow_def)
qed

subsection \<open>C10: the back handler of a spoke without a title\<close>

text \<open>
  Claim C10. On a spoke whose title is None the back handler raises AttributeError when it
  derives the thread name: the window has been hidden and the main loop left, but the
  manager has not been asked for a thread, no thread has been killed, joined or started,
  and the threads and the manager's table are as they were.
\<close>

theorem back_untitled_fails:
  assumes "title (cls self) = None"
  shows "\<exists>w'. on_back_clicked self window w = Some (Inl AttributeError, w')
           \<and> trace w' = trace w @ [WindowHide, GtkMainQuit]
           \<and> threads w' = threads w
           \<and> threadMgr w' = threadMgr w"
  using assms by (simp add: on_back_clicked_untitled)

theorem back_untitled_fails_witness:
  "title (cls (new_spoke BareSpoke)) = None
   \<and> (\<exists>w'. on_back_clicked (new_spoke BareSpoke) 0 world1 = Some (Inl AttributeError, w')
           \<and> trace w' = [WindowHide, GtkMainQuit]
           \<and> threads w' = [check_thread (new_spoke FooSpoke) ''AnaFooCheck'']
           \<and> threadMgr w' = [''AnaFooCheck'' \<mapsto> 0])"
proof -
  have t: "title (cls (new_spoke BareSpoke)) = None"
    by (simp add: new_spoke_def BareSpoke_def pass_body_def)
  show ?thesis
    using back_untitled_fails [OF t, of 0 world1] t by (simp add: world1_def)
qed

end
